theory Spec2Isabelle
  imports Main "HOL-Library.Word"
begin

section \<open>The DataVolume admission webhook\<close>

text \<open>
  Embedding of \<^verbatim>\<open>pkg/apiserver/webhooks/datavolume-validate.go\<close>. A Go pointer that may
  be nil is an \<open>option\<close>; a run-time panic of the Go code is the value \<open>Panic\<close>; a
  function that returns normally yields \<open>Return\<close>. Calls to \<^verbatim>\<open>klog\<close> only write to the
  log and are left out.
\<close>

subsection \<open>Data\<close>

datatype panic = IndexOutOfRange | NilPointerDereference

datatype 'a result = Panic panic | Return 'a

datatype CauseType =
  CauseTypeFieldValueInvalid | CauseTypeFieldValueNotFound | CauseTypeFieldValueDuplicate

record StatusCause =
  Type :: CauseType
  Message :: string
  Field' :: string

text \<open>
  A \<^verbatim>\<open>k8sfield.Path\<close> built with \<^verbatim>\<open>NewPath\<close> and \<^verbatim>\<open>Child\<close> is the list of its names,
  root first; \<^verbatim>\<open>String()\<close> joins them with dots.
\<close>

type_synonym Path = "string list"

definition NewPath :: "string \<Rightarrow> Path" where
  "NewPath name = [name]"

definition Child :: "Path \<Rightarrow> string list \<Rightarrow> Path" where
  "Child p names = p @ names"

fun PathString :: "Path \<Rightarrow> string" where
  "PathString [] = []"
| "PathString [n] = n"
| "PathString (n # ns) = n @ ''.'' @ PathString ns"

text \<open>
  The source structs of \<^verbatim>\<open>cdicorev1alpha1\<close>, with the fields this file reads. The
  declaration of \<^verbatim>\<open>DataVolumeSource\<close> is in another package: the six alternatives the
  validator names are fields of the record, and \<open>OtherSources\<close> holds every further
  pointer field of the struct, in any number, so that nothing below depends on how many
  alternatives the struct declares.
\<close>

record DataVolumeSourceHTTP =
  HTTP_URL :: string

record DataVolumeSourceS3 =
  S3_URL :: string

record DataVolumeSourceImageio =
  Imageio_URL :: string
  SecretRef :: string
  CertConfigMap :: string
  DiskID :: string

record DataVolumeSourcePVC =
  pvc_Namespace :: string
  pvc_Name :: string

record DataVolumeSource =
  HTTP :: "DataVolumeSourceHTTP option"
  S3 :: "DataVolumeSourceS3 option"
  Registry :: "unit option"
  SourcePVC :: "DataVolumeSourcePVC option"
  Blank :: "unit option"
  Imageio :: "DataVolumeSourceImageio option"
  OtherSources :: "unit option list"

text \<open>
  \<^verbatim>\<open>resource.Quantity\<close> belongs to the Kubernetes API machinery. The validator looks at
  a quantity only through \<^verbatim>\<open>IsZero()\<close> and \<^verbatim>\<open>Value()\<close> (an \<^verbatim>\<open>int64\<close>), so a quantity is
  represented by what these two calls return.
\<close>

record Quantity =
  IsZero :: bool
  Value :: "64 word"

record PersistentVolumeClaimSpec =
  AccessModes :: "string list"
  Requests :: "string \<rightharpoonup> Quantity"

text \<open>
  The record of a DataVolume spec lists what the validator reads. A record can be
  extended, and the specs handled below are of type \<open>'v DataVolumeSpec_scheme\<close>: the
  extension, of an arbitrary type \<open>'v\<close>, stands for everything else in the spec's Go value
  that \<^verbatim>\<open>reflect.DeepEqual\<close> compares and this file never reads (further fields of the
  nested structs such as the claim's storage class, volume mode and selector, the secret
  references of the sources, the format of a quantity, whether a slice is nil or empty).
  The validator is polymorphic in \<open>'v\<close>, so it cannot depend on it.
\<close>

record DataVolumeSpec =
  Source :: DataVolumeSource
  PVC :: "PersistentVolumeClaimSpec option"
  ContentType :: string

record 'v DataVolume =
  dv_Name :: string
  dv_Namespace :: string
  dv_Spec :: "'v DataVolumeSpec_scheme"

record PersistentVolumeClaim =
  Annotations :: "string \<rightharpoonup> string"
  claim_Spec :: PersistentVolumeClaimSpec

datatype Operation = Create | Update | Delete | Connect

record AdmissionRequest =
  Operation :: Operation
  Object_Raw :: string
  OldObject_Raw :: string

record AdmissionReview =
  Request :: AdmissionRequest

text \<open>
  The three responses \<^verbatim>\<open>Admit\<close> builds: through \<^verbatim>\<open>toAdmissionResponseError\<close>, through
  \<^verbatim>\<open>toRejectedAdmissionResponse\<close> (both helpers of the package, kept symbolic), and the
  response of its last lines, whose \<^verbatim>\<open>Allowed\<close> is true.
\<close>

datatype AdmissionResponse =
  toAdmissionResponseError string
| toRejectedAdmissionResponse "StatusCause list"
| reviewResponseAllowed

text \<open>The error of a \<^verbatim>\<open>Get\<close>, as far as \<^verbatim>\<open>k8serrors.IsNotFound\<close> tells errors apart.\<close>

datatype GetError = NotFound | OtherGetError string

fun IsNotFound :: "GetError \<Rightarrow> bool" where
  "IsNotFound NotFound = True"
| "IsNotFound (OtherGetError e) = False"

text \<open>
  The webhook's \<^verbatim>\<open>client\<close>, read through
  \<^verbatim>\<open>CoreV1().PersistentVolumeClaims(namespace).Get(name, ...)\<close>: a pointer and an error.
\<close>

record dataVolumeValidatingWebhook =
  client :: "string \<Rightarrow> string \<Rightarrow> PersistentVolumeClaim option \<times> GetError option"

text \<open>
  What the file uses from outside: \<^verbatim>\<open>url.ParseRequestURI\<close> (the scheme of the parsed
  URL, or no result when parsing fails), \<^verbatim>\<open>controller.ValidateCanCloneSourceAndTargetSpec\<close>
  (its error message, if any), \<^verbatim>\<open>validateDataVolumeResource\<close>, \<^verbatim>\<open>json.Unmarshal\<close> into a
  DataVolume, and three string constants. They are parameters of the model.
\<close>

record 'v Externals =
  ParseRequestURI :: "string \<Rightarrow> string option"
  ValidateCanCloneSourceAndTargetSpec ::
    "PersistentVolumeClaimSpec \<Rightarrow> PersistentVolumeClaimSpec option \<Rightarrow> string option"
  validateDataVolumeResource :: "AdmissionReview \<Rightarrow> string option"
  Unmarshal :: "string \<Rightarrow> string + 'v DataVolume"
  DataVolumeKubeVirt :: string
  DataVolumeArchive :: string
  AnnPopulatedFor :: string

definition ReadWriteOnce :: string where
  "ReadWriteOnce = ''ReadWriteOnce''"

definition ReadOnlyMany :: string where
  "ReadOnlyMany = ''ReadOnlyMany''"

definition ReadWriteMany :: string where
  "ReadWriteMany = ''ReadWriteMany''"

fun NotNil :: "'a option \<Rightarrow> bool" where
  "NotNil None = False"
| "NotNil (Some x) = True"

subsection \<open>validateSourceURL and validateDataVolumeName\<close>

definition validateSourceURL :: "'v Externals \<Rightarrow> string \<Rightarrow> string" where
  "validateSourceURL ext sourceURL =
     (if sourceURL = [] then ''source URL is empty''
      else case ParseRequestURI ext sourceURL of
        None \<Rightarrow> ''Invalid source URL: '' @ sourceURL
      | Some scheme \<Rightarrow>
          if scheme \<noteq> ''http'' \<and> scheme \<noteq> ''https''
          then ''Invalid source URL scheme: '' @ sourceURL
          else [])"

definition validateDataVolumeName :: "string \<Rightarrow> StatusCause list" where
  "validateDataVolumeName name =
     (if length name > 55
      then [\<lparr>Type = CauseTypeFieldValueInvalid,
             Message = ''Name of data volume cannot be more than 55 characters'',
             Field' = []\<rparr>]
      else [])"

subsection \<open>validateDataVolumeSpec\<close>

text \<open>
  The reflective loop of lines 76 to 82 visits every field of the source struct and
  counts those that are not nil.
\<close>

definition sourceFields :: "DataVolumeSource \<Rightarrow> bool list" where
  "sourceFields s =
     [NotNil (HTTP s), NotNil (S3 s), NotNil (Registry s), NotNil (SourcePVC s),
      NotNil (Blank s), NotNil (Imageio s)] @ map NotNil (OtherSources s)"

fun countSources :: "bool list \<Rightarrow> nat \<Rightarrow> nat" where
  "countSources [] numberOfSources = numberOfSources"
| "countSources (notNil # rest) numberOfSources =
     countSources rest (if notNil then numberOfSources + 1 else numberOfSources)"

text \<open>
  Each block of the function is a check that either returns (\<open>Some\<close>) or falls through
  to the next block (\<open>None\<close>). \<^verbatim>\<open>causes\<close> is empty whenever a block appends to it, so
  every rejection is a one-element list.
\<close>

definition checkNumberOfSources ::
  "Path \<Rightarrow> 'v DataVolumeSpec_scheme \<Rightarrow> StatusCause list option" where
  "checkNumberOfSources field spec =
     (let numberOfSources = countSources (sourceFields (Source spec)) 0 in
      if numberOfSources = 0
      then Some [\<lparr>Type = CauseTypeFieldValueInvalid,
                  Message = ''Missing Data volume source'',
                  Field' = PathString (Child field [''source''])\<rparr>]
      else if numberOfSources > 1
      then Some [\<lparr>Type = CauseTypeFieldValueInvalid,
                  Message = ''Multiple Data volume sources'',
                  Field' = PathString (Child field [''source''])\<rparr>]
      else None)"

definition checkSourceURL ::
  "'v Externals \<Rightarrow> Path \<Rightarrow> 'v DataVolumeSpec_scheme \<Rightarrow> StatusCause list option" where
  "checkSourceURL ext field spec =
     (let s = Source spec in
      if NotNil (HTTP s) \<or> NotNil (S3 s) \<or> NotNil (Imageio s) then
        let (url, sourceType) =
              (case HTTP s of
                 Some h \<Rightarrow> (HTTP_URL h, PathString (Child field [''source'', ''HTTP'', ''url'']))
               | None \<Rightarrow>
                  (case S3 s of
                     Some b \<Rightarrow> (S3_URL b, PathString (Child field [''source'', ''S3'', ''url'']))
                   | None \<Rightarrow>
                      (case Imageio s of
                         Some i \<Rightarrow>
                           (Imageio_URL i, PathString (Child field [''source'', ''Imageio'', ''url'']))
                       | None \<Rightarrow> ([], []))));
            err = validateSourceURL ext url
        in if err \<noteq> []
           then Some [\<lparr>Type = CauseTypeFieldValueInvalid,
                       Message = PathString (Child field [''source'']) @ '' '' @ err,
                       Field' = sourceType\<rparr>]
           else None
      else None)"

definition checkContentType ::
  "'v Externals \<Rightarrow> Path \<Rightarrow> 'v DataVolumeSpec_scheme \<Rightarrow> StatusCause list option" where
  "checkContentType ext field spec =
     (if ContentType spec \<noteq> [] \<and> ContentType spec \<noteq> DataVolumeKubeVirt ext
         \<and> ContentType spec \<noteq> DataVolumeArchive ext
      then Some [\<lparr>Type = CauseTypeFieldValueInvalid,
                  Message = ''ContentType not one of: '' @ DataVolumeKubeVirt ext @ '', ''
                            @ DataVolumeArchive ext,
                  Field' = PathString (Child field [''contentType''])\<rparr>]
      else if NotNil (Blank (Source spec)) \<and> ContentType spec = DataVolumeArchive ext
      then Some [\<lparr>Type = CauseTypeFieldValueInvalid,
                  Message = ''SourceType cannot be blank and the contentType be archive'',
                  Field' = PathString (Child field [''contentType''])\<rparr>]
      else if NotNil (Registry (Source spec)) \<and> ContentType spec \<noteq> []
              \<and> ContentType spec \<noteq> DataVolumeKubeVirt ext
      then Some [\<lparr>Type = CauseTypeFieldValueInvalid,
                  Message = ''ContentType must be '' @ DataVolumeKubeVirt ext
                            @ '' when Source is Registry'',
                  Field' = PathString (Child field [''contentType''])\<rparr>]
      else None)"

definition checkImageio ::
  "Path \<Rightarrow> 'v DataVolumeSpec_scheme \<Rightarrow> StatusCause list option" where
  "checkImageio field spec =
     (case Imageio (Source spec) of
        None \<Rightarrow> None
      | Some i \<Rightarrow>
          if SecretRef i = [] \<or> CertConfigMap i = [] \<or> DiskID i = []
          then Some [\<lparr>Type = CauseTypeFieldValueInvalid,
                      Message = PathString (Child field [''source'', ''Imageio''])
                                @ '' source Imageio is not valid'',
                      Field' = PathString (Child field [''source'', ''Imageio''])\<rparr>]
          else None)"

text \<open>
  Lines 164 to 196. When \<^verbatim>\<open>Get\<close> fails with an error other than not-found the code goes
  on to \<^verbatim>\<open>&sourcePVC.Spec\<close>, which panics on a nil \<^verbatim>\<open>sourcePVC\<close>.
\<close>

definition checkSourcePVC ::
  "'v Externals \<Rightarrow> dataVolumeValidatingWebhook \<Rightarrow> AdmissionRequest \<Rightarrow> Path
    \<Rightarrow> 'v DataVolumeSpec_scheme
    \<Rightarrow> StatusCause list result option" where
  "checkSourcePVC ext wh request field spec =
     (case SourcePVC (Source spec) of
        None \<Rightarrow> None
      | Some p \<Rightarrow>
          if pvc_Namespace p = [] \<or> pvc_Name p = []
          then Some (Return [\<lparr>Type = CauseTypeFieldValueInvalid,
                              Message = PathString (Child field [''source'', ''PVC''])
                                        @ '' source PVC is not valid'',
                              Field' = PathString (Child field [''source'', ''PVC''])\<rparr>])
          else if Operation request = Create then
            (case client wh (pvc_Namespace p) (pvc_Name p) of
               (sourcePVC, err) \<Rightarrow>
                 if (case err of None \<Rightarrow> False | Some e \<Rightarrow> IsNotFound e)
                 then Some (Return [\<lparr>Type = CauseTypeFieldValueNotFound,
                                     Message = ''Source PVC '' @ pvc_Namespace p @ ''/''
                                               @ pvc_Name p @ '' doesn't exist'',
                                     Field' = PathString (Child field [''source'', ''PVC''])\<rparr>])
                 else
                   (case sourcePVC of
                      None \<Rightarrow> Some (Panic NilPointerDereference)
                    | Some sp \<Rightarrow>
                       (case ValidateCanCloneSourceAndTargetSpec ext (claim_Spec sp) (PVC spec) of
                          Some e \<Rightarrow>
                            Some (Return [\<lparr>Type = CauseTypeFieldValueInvalid,
                                           Message = e,
                                           Field' = PathString (Child field [''PVC''])\<rparr>])
                        | None \<Rightarrow> None)))
          else None)"

definition checkPVCSize :: "Path \<Rightarrow> PersistentVolumeClaimSpec \<Rightarrow> StatusCause list option" where
  "checkPVCSize field pvc =
     (case Requests pvc ''storage'' of
        Some pvcSize \<Rightarrow>
          if IsZero pvcSize \<or> sint (Value pvcSize) < 0
          then Some [\<lparr>Type = CauseTypeFieldValueInvalid,
                      Message = ''PVC size can't be equal or less than zero'',
                      Field' = PathString (Child field [''PVC'', ''resources'', ''requests'', ''size''])\<rparr>]
          else None
      | None \<Rightarrow>
          Some [\<lparr>Type = CauseTypeFieldValueInvalid,
                 Message = ''PVC size is missing'',
                 Field' = PathString (Child field [''PVC'', ''resources'', ''requests'', ''size''])\<rparr>])"

text \<open>
  Lines 224 to 242. \<^verbatim>\<open>accessModes[0]\<close> is evaluated whenever the list has at most one
  element; Go panics with an index out of range when it has none.
\<close>

definition checkAccessModes ::
  "Path \<Rightarrow> PersistentVolumeClaimSpec \<Rightarrow> StatusCause list result" where
  "checkAccessModes field pvc =
     (let accessModes = AccessModes pvc in
      if length accessModes > 1
      then Return [\<lparr>Type = CauseTypeFieldValueInvalid,
                    Message = ''PVC multiple accessModes'',
                    Field' = PathString (Child field [''PVC'', ''accessModes''])\<rparr>]
      else
        (case accessModes of
           [] \<Rightarrow> Panic IndexOutOfRange
         | m # rest \<Rightarrow>
             if m \<noteq> ReadWriteOnce \<and> m \<noteq> ReadOnlyMany \<and> m \<noteq> ReadWriteMany
             then Return [\<lparr>Type = CauseTypeFieldValueInvalid,
                           Message = ''Unsupported value: '' @ [CHR 0x22] @ m @ [CHR 0x22]
                             @ '': supported values: '' @ [CHR 0x22] @ ''ReadOnlyMany''
                             @ [CHR 0x22] @ '', '' @ [CHR 0x22] @ ''ReadWriteMany'' @ [CHR 0x22]
                             @ '', '' @ [CHR 0x22] @ ''ReadWriteOnce'' @ [CHR 0x22],
                           Field' = PathString (Child field [''PVC'', ''accessModes''])\<rparr>]
             else Return []))"

definition validateDataVolumeSpec ::
  "'v Externals \<Rightarrow> dataVolumeValidatingWebhook \<Rightarrow> AdmissionRequest \<Rightarrow> Path
    \<Rightarrow> 'v DataVolumeSpec_scheme
    \<Rightarrow> StatusCause list result" where
  "validateDataVolumeSpec ext wh request field spec =
     (case checkNumberOfSources field spec of
        Some causes \<Rightarrow> Return causes
      | None \<Rightarrow>
     (case checkSourceURL ext field spec of
        Some causes \<Rightarrow> Return causes
      | None \<Rightarrow>
     (case checkContentType ext field spec of
        Some causes \<Rightarrow> Return causes
      | None \<Rightarrow>
     (case checkImageio field spec of
        Some causes \<Rightarrow> Return causes
      | None \<Rightarrow>
     (case checkSourcePVC ext wh request field spec of
        Some r \<Rightarrow> r
      | None \<Rightarrow>
     (case PVC spec of
        None \<Rightarrow>
          Return [\<lparr>Type = CauseTypeFieldValueInvalid,
                   Message = ''Missing Data volume PVC'',
                   Field' = PathString (Child field [''PVC''])\<rparr>]
      | Some pvc \<Rightarrow>
     (case checkPVCSize field pvc of
        Some causes \<Rightarrow> Return causes
      | None \<Rightarrow> checkAccessModes field pvc)))))))"

subsection \<open>Admit\<close>

text \<open>Lines 258 to 275: on an update, the old object is decoded and the two specs compared.
  \<^verbatim>\<open>reflect.DeepEqual\<close> compares the two Go values field by field, through pointers,
  maps and slices; on the decoded specs it is equality of the records, the extension
  (all that the validator does not read) included.\<close>

definition checkUpdate ::
  "'v Externals \<Rightarrow> AdmissionReview \<Rightarrow> 'v DataVolume \<Rightarrow> AdmissionResponse option" where
  "checkUpdate ext ar dv =
     (if Operation (Request ar) = Update then
        (case Unmarshal ext (OldObject_Raw (Request ar)) of
           Inl err \<Rightarrow> Some (toAdmissionResponseError err)
         | Inr oldDV \<Rightarrow>
             if dv_Spec dv \<noteq> dv_Spec oldDV
             then Some (toRejectedAdmissionResponse
                    [\<lparr>Type = CauseTypeFieldValueDuplicate,
                      Message = ''Cannot update DataVolume Spec'',
                      Field' = PathString (Child (NewPath ''DataVolume'') [''Spec''])\<rparr>])
             else None)
      else None)"

text \<open>Lines 283 to 304: on a create, a PVC of the DataVolume's name may exist only when it
  is annotated as populated for this DataVolume.\<close>

definition checkDestinationPVC ::
  "'v Externals \<Rightarrow> dataVolumeValidatingWebhook \<Rightarrow> AdmissionReview \<Rightarrow> 'v DataVolume
    \<Rightarrow> AdmissionResponse result option" where
  "checkDestinationPVC ext wh ar dv =
     (if Operation (Request ar) = Create then
        (case client wh (dv_Namespace dv) (dv_Name dv) of
           (pvc, Some err) \<Rightarrow>
             (case err of
                NotFound \<Rightarrow> None
              | OtherGetError e \<Rightarrow> Some (Return (toAdmissionResponseError e)))
         | (pvc, None) \<Rightarrow>
             (case pvc of
                None \<Rightarrow> Some (Panic NilPointerDereference)
              | Some c \<Rightarrow>
                 (case Annotations c (AnnPopulatedFor ext) of
                    None \<Rightarrow>
                      Some (Return (toRejectedAdmissionResponse
                        [\<lparr>Type = CauseTypeFieldValueDuplicate,
                          Message = ''Destination PVC already exists'',
                          Field' = PathString (Child (NewPath ''DataVolume'') [''Name''])\<rparr>]))
                  | Some dvName \<Rightarrow>
                      if dvName \<noteq> dv_Name dv
                      then Some (Return (toRejectedAdmissionResponse
                        [\<lparr>Type = CauseTypeFieldValueDuplicate,
                          Message = ''Destination PVC already exists'',
                          Field' = PathString (Child (NewPath ''DataVolume'') [''Name''])\<rparr>]))
                      else None)))
      else None)"

definition Admit ::
  "'v Externals \<Rightarrow> dataVolumeValidatingWebhook \<Rightarrow> AdmissionReview
    \<Rightarrow> AdmissionResponse result" where
  "Admit ext wh ar =
     (case validateDataVolumeResource ext ar of
        Some err \<Rightarrow> Return (toAdmissionResponseError err)
      | None \<Rightarrow>
     (case Unmarshal ext (Object_Raw (Request ar)) of
        Inl err \<Rightarrow> Return (toAdmissionResponseError err)
      | Inr dv \<Rightarrow>
     (case checkUpdate ext ar dv of
        Some response \<Rightarrow> Return response
      | None \<Rightarrow>
     (let causes = validateDataVolumeName (dv_Name dv) in
      if length causes > 0 then Return (toRejectedAdmissionResponse causes)
      else
     (case checkDestinationPVC ext wh ar dv of
        Some r \<Rightarrow> r
      | None \<Rightarrow>
     (case validateDataVolumeSpec ext wh (Request ar) (NewPath ''spec'') (dv_Spec dv) of
        Panic p \<Rightarrow> Panic p
      | Return causes \<Rightarrow>
          if length causes > 0 then Return (toRejectedAdmissionResponse causes)
          else Return reviewResponseAllowed))))))"

subsection \<open>Properties the statements below are phrased with\<close>

text \<open>The number of source alternatives of a spec that are populated (not nil), counted
  on the struct itself: one for each of the alternatives HTTP, S3, Registry, PVC, Blank
  and Imageio that is set, and one for each further alternative that is set.\<close>

definition populatedSources :: "DataVolumeSource \<Rightarrow> nat" where
  "populatedSources s =
     (if HTTP s = None then 0 else 1) + (if S3 s = None then 0 else 1)
     + (if Registry s = None then 0 else 1) + (if SourcePVC s = None then 0 else 1)
     + (if Blank s = None then 0 else 1) + (if Imageio s = None then 0 else 1)
     + length (filter (\<lambda>alternative. alternative \<noteq> None) (OtherSources s))"

text \<open>A spec reaches the capacity check of line 206 when every earlier block falls through
  and its PVC is present.\<close>

definition reachesCapacityCheck ::
  "'v Externals \<Rightarrow> dataVolumeValidatingWebhook \<Rightarrow> AdmissionRequest \<Rightarrow> Path
    \<Rightarrow> 'v DataVolumeSpec_scheme
    \<Rightarrow> PersistentVolumeClaimSpec \<Rightarrow> bool" where
  "reachesCapacityCheck ext wh request field spec pvc =
     (checkNumberOfSources field spec = None \<and> checkSourceURL ext field spec = None
      \<and> checkContentType ext field spec = None \<and> checkImageio field spec = None
      \<and> checkSourcePVC ext wh request field spec = None \<and> PVC spec = Some pvc)"

subsection \<open>Concrete requests\<close>

text \<open>Values for the parameters, and specs to run the validator on: a blank source with a
  one-gibibyte request, with one access mode and with none. In these values the
  extension of a spec is a text, here the claim's storage class.\<close>

definition blankSource :: DataVolumeSource where
  "blankSource = \<lparr>HTTP = None, S3 = None, Registry = None, SourcePVC = None,
                   Blank = Some (), Imageio = None, OtherSources = [None]\<rparr>"

definition noSource :: DataVolumeSource where
  "noSource = \<lparr>HTTP = None, S3 = None, Registry = None, SourcePVC = None,
                Blank = None, Imageio = None, OtherSources = [None]\<rparr>"

definition s3Source :: DataVolumeSource where
  "s3Source = \<lparr>HTTP = None, S3 = Some \<lparr>S3_URL = ''http://example.com/bucket/disk.img''\<rparr>,
                Registry = None, SourcePVC = None, Blank = None, Imageio = None,
                OtherSources = [None]\<rparr>"

definition otherSource :: DataVolumeSource where
  "otherSource = \<lparr>HTTP = None, S3 = None, Registry = None, SourcePVC = None,
                   Blank = None, Imageio = None, OtherSources = [Some ()]\<rparr>"

definition blankAndS3 :: DataVolumeSource where
  "blankAndS3 = \<lparr>HTTP = None, S3 = Some \<lparr>S3_URL = ''http://example.com/bucket/disk.img''\<rparr>,
                  Registry = None, SourcePVC = None, Blank = Some (), Imageio = None,
                  OtherSources = [None]\<rparr>"

definition twoSources :: DataVolumeSource where
  "twoSources = \<lparr>HTTP = Some \<lparr>HTTP_URL = ''http://example.com/disk.img''\<rparr>, S3 = None,
                  Registry = None, SourcePVC = None, Blank = Some (), Imageio = None,
                  OtherSources = [None]\<rparr>"

definition oneGi :: Quantity where
  "oneGi = \<lparr>IsZero = False, Value = 1073741824\<rparr>"

definition zeroSize :: Quantity where
  "zeroSize = \<lparr>IsZero = True, Value = 0\<rparr>"

text \<open>A quantity that is not zero and whose \<^verbatim>\<open>Value()\<close> is 0: the \<^verbatim>\<open>int64\<close> that
  \<^verbatim>\<open>Value()\<close> returns does not hold every amount.\<close>

definition wrappedSize :: Quantity where
  "wrappedSize = \<lparr>IsZero = False, Value = 0\<rparr>"

definition claimSpec :: "string list \<Rightarrow> (string \<rightharpoonup> Quantity) \<Rightarrow> PersistentVolumeClaimSpec" where
  "claimSpec modes requests = \<lparr>AccessModes = modes, Requests = requests\<rparr>"

definition blankSpecOfClass ::
  "string \<Rightarrow> string list \<Rightarrow> (string \<rightharpoonup> Quantity) \<Rightarrow> string DataVolumeSpec_scheme" where
  "blankSpecOfClass storageClass modes requests =
     \<lparr>Source = blankSource, PVC = Some (claimSpec modes requests), ContentType = [],
      \<dots> = storageClass\<rparr>"

definition blankSpec ::
  "string list \<Rightarrow> (string \<rightharpoonup> Quantity) \<Rightarrow> string DataVolumeSpec_scheme" where
  "blankSpec modes requests = blankSpecOfClass ''standard'' modes requests"

definition storage :: "Quantity \<Rightarrow> (string \<rightharpoonup> Quantity)" where
  "storage q = [''storage'' \<mapsto> q]"

definition testDV :: "string list \<Rightarrow> Quantity \<Rightarrow> string DataVolume" where
  "testDV modes q =
     \<lparr>dv_Name = ''testdv'', dv_Namespace = ''default'', dv_Spec = blankSpec modes (storage q)\<rparr>"

definition fastDV :: "string DataVolume" where
  "fastDV =
     \<lparr>dv_Name = ''testdv'', dv_Namespace = ''default'',
      dv_Spec = blankSpecOfClass ''fast'' [''ReadWriteOnce''] (storage oneGi)\<rparr>"

definition testExternals :: "string Externals" where
  "testExternals =
     \<lparr>ParseRequestURI = (\<lambda>u. if take 7 u = ''http://'' then Some ''http'' else None),
      ValidateCanCloneSourceAndTargetSpec = (\<lambda>source target. None),
      validateDataVolumeResource = (\<lambda>ar. None),
      Unmarshal = (\<lambda>raw.
         if raw = ''dv-1Gi'' then Inr (testDV [''ReadWriteOnce''] oneGi)
         else if raw = ''dv-0'' then Inr (testDV [''ReadWriteOnce''] zeroSize)
         else if raw = ''dv-nomodes'' then Inr (testDV [] oneGi)
         else if raw = ''dv-1Gi-fast'' then Inr fastDV
         else if raw = ''dv-wrapped'' then Inr (testDV [''ReadWriteOnce''] wrappedSize)
         else Inl ''unexpected end of JSON input''),
      DataVolumeKubeVirt = ''kubevirt'',
      DataVolumeArchive = ''archive'',
      AnnPopulatedFor = ''cdi.kubevirt.io/storage.populatedFor''\<rparr>"

definition testWebhook :: dataVolumeValidatingWebhook where
  "testWebhook = \<lparr>client = (\<lambda>namespace name. (None, Some NotFound))\<rparr>"

definition admissionReview :: "Operation \<Rightarrow> string \<Rightarrow> string \<Rightarrow> AdmissionReview" where
  "admissionReview operation raw oldRaw =
     \<lparr>Request = \<lparr>Operation = operation, Object_Raw = raw, OldObject_Raw = oldRaw\<rparr>\<rparr>"

section \<open>The upload proxy\<close>

text \<open>
  Of package \<^verbatim>\<open>uploadproxy\<close> the sources hold the test file only. The test doubles and
  the requests the tests build are translated from \<^verbatim>\<open>uploadproxy_test.go\<close>; the handler
  they exercise is modelled from the specification.
\<close>

subsection \<open>Data\<close>

datatype TokenOperation = OperationUpload | OtherOperation string

record GroupVersionResource =
  Group :: string
  Version :: string
  Resource :: string

record Payload =
  payload_Operation :: TokenOperation
  Name :: string
  Namespace :: string
  payload_Resource :: GroupVersionResource

datatype Method = GET | HEAD | POST

datatype Route = UploadPathSync | healthzPath

record HTTPRequest =
  req_Method :: Method
  req_Path :: Route
  req_Authorization :: "string option"
  req_Body :: string

record OutboundRequest =
  out_URL :: string
  out_Method :: Method
  out_Body :: string

record BackendResponse =
  StatusCode :: int
  resp_Body :: string

text \<open>An HTTP client answers an outbound request with a response, or fails to reach the
  server (\<open>Inl\<close>, the transport error).\<close>

type_synonym HTTPClient = "OutboundRequest \<Rightarrow> string + BackendResponse"

text \<open>
  Modelled from the spec: the Target Readiness Record of section 3, the external state
  of a destination object (the proxy's resolver is not in the sources). An object that
  exists has two independent facts, worker pod scheduled and worker pod ready.
\<close>

record TargetReadiness =
  scheduled :: bool
  ready :: bool

text \<open>
  The four fields of \<^verbatim>\<open>uploadProxyApp\<close> that the tests set. Each is nil in a fresh app.
  \<open>client'\<close> is the state the \<^verbatim>\<open>client\<close> reads (by namespace and name);
  \<open>clientCreator\<close> holds what its \<^verbatim>\<open>CreateClient()\<close> returns, an error or a client.
\<close>

record uploadProxyApp =
  client' :: "(string \<times> string \<rightharpoonup> TargetReadiness) option"
  tokenValidator :: "(string \<Rightarrow> string + Payload) option"
  urlResolver :: "(string \<Rightarrow> string \<Rightarrow> string \<Rightarrow> string) option"
  clientCreator :: "(string + HTTPClient) option"

text \<open>
  Modelled from the spec: the terminal states of the handler's state machine (section
  4.4) and the collaborators it calls on the way; \<^verbatim>\<open>uploadproxy.go\<close> is not in the
  sources. \<open>Alive\<close> is the answer of the liveness path.
\<close>

datatype Rejection = BadAuthorizationHeader | TokenInvalid | TargetNotFound | TargetNotReady

datatype Terminal = Rejected Rejection | Failed | Completed BackendResponse | Alive

datatype Call =
  ValidateToken string
| ResolveBackend string string string
| Forward OutboundRequest

subsection \<open>The handler\<close>

definition bearerPrefix :: string where
  "bearerPrefix = ''Bearer ''"

text \<open>
  Modelled from the spec: the response codes of section 6 (the proxy's own
  \<^verbatim>\<open>ServeHTTP\<close> is not in the sources). 400 for a missing or malformed Authorization
  header and for a target that is not ready, 401 for an invalid token, 404 for a target
  that is not found (sections 6 and 7; section 4.4 also mentions 400); a backend that
  cannot be reached gives 502 (the spec allows 502 or 503); otherwise the backend's own
  status code.
\<close>

fun Code :: "Terminal \<Rightarrow> int" where
  "Code (Rejected BadAuthorizationHeader) = 400"
| "Code (Rejected TokenInvalid) = 401"
| "Code (Rejected TargetNotFound) = 404"
| "Code (Rejected TargetNotReady) = 400"
| "Code Failed = 502"
| "Code (Completed response) = StatusCode response"
| "Code Alive = 200"

text \<open>
  Modelled from the spec: the Backend Resolver of section 4.2, \<^verbatim>\<open>Resolve(namespace,
  name, resourceKind)\<close>, which is not in the sources. One read of the external state: an
  absent target is not found, a target that is not both scheduled and ready is not
  ready, and otherwise the address is derived from the target's identity alone.
\<close>

definition Resolve ::
  "uploadProxyApp \<Rightarrow> string \<Rightarrow> string \<Rightarrow> string \<Rightarrow> (Rejection + string) result" where
  "Resolve app namespace name resourceKind =
     (case client' app of
        None \<Rightarrow> Panic NilPointerDereference
      | Some state \<Rightarrow>
         (case state (namespace, name) of
            None \<Rightarrow> Return (Inl TargetNotFound)
          | Some target \<Rightarrow>
              if scheduled target \<and> ready target then
                (case urlResolver app of
                   None \<Rightarrow> Panic NilPointerDereference
                 | Some resolve \<Rightarrow> Return (Inr (resolve namespace name resourceKind)))
              else Return (Inl TargetNotReady)))"

text \<open>
  Modelled from the spec: the Proxy Handler of section 4.4 for the upload path
  (\<^verbatim>\<open>uploadproxy.go\<close> is not in the sources). The transitions in order: the
  Authorization header must be present and start with the scheme prefix; the token
  validator must accept the token; the resolver must find a ready target; the request is
  then sent to the resolved address with the same method and body, and the backend's
  response is the answer. The second component lists the collaborators called.
\<close>

definition handleUploadRequest ::
  "uploadProxyApp \<Rightarrow> HTTPRequest \<Rightarrow> Terminal result \<times> Call list" where
  "handleUploadRequest app r =
     (case req_Authorization r of
        None \<Rightarrow> (Return (Rejected BadAuthorizationHeader), [])
      | Some header \<Rightarrow>
          if take (length bearerPrefix) header \<noteq> bearerPrefix
          then (Return (Rejected BadAuthorizationHeader), [])
          else
           (let token = drop (length bearerPrefix) header in
            case tokenValidator app of
              None \<Rightarrow> (Panic NilPointerDereference, [])
            | Some validate \<Rightarrow>
               (case validate token of
                  Inl err \<Rightarrow> (Return (Rejected TokenInvalid), [ValidateToken token])
                | Inr claim \<Rightarrow>
                   (let resolving =
                          [ValidateToken token,
                           ResolveBackend (Namespace claim) (Name claim)
                             (Resource (payload_Resource claim))] in
                    case Resolve app (Namespace claim) (Name claim)
                           (Resource (payload_Resource claim)) of
                      Panic p \<Rightarrow> (Panic p, resolving)
                    | Return (Inl rejection) \<Rightarrow> (Return (Rejected rejection), resolving)
                    | Return (Inr address) \<Rightarrow>
                       (case clientCreator app of
                          None \<Rightarrow> (Panic NilPointerDereference, resolving)
                        | Some (Inl err) \<Rightarrow> (Return Failed, resolving)
                        | Some (Inr httpClient) \<Rightarrow>
                           (let out = \<lparr>out_URL = address, out_Method = req_Method r,
                                       out_Body = req_Body r\<rparr> in
                            case httpClient out of
                              Inl err \<Rightarrow> (Return Failed, resolving @ [Forward out])
                            | Inr response \<Rightarrow>
                                (Return (Completed response), resolving @ [Forward out])))))))"

text \<open>
  Modelled from the spec: the inbound surface of section 6 (\<^verbatim>\<open>ServeHTTP\<close> is not in the
  sources). The liveness path answers without authentication or resolution; the upload
  path runs the handler.
\<close>

definition ServeHTTP :: "uploadProxyApp \<Rightarrow> HTTPRequest \<Rightarrow> Terminal result \<times> Call list" where
  "ServeHTTP app r =
     (case req_Path r of
        healthzPath \<Rightarrow> (Return Alive, [])
      | UploadPathSync \<Rightarrow> handleUploadRequest app r)"

subsection \<open>The test file\<close>

text \<open>From \<^verbatim>\<open>uploadproxy_test.go\<close>: the two validators, the two request builders, the
  fresh app, and the app of \<^verbatim>\<open>setupProxyTests\<close> in front of a test server at
  \<open>serverURL\<close> whose handler writes \<open>statusCode\<close>.\<close>

definition validateSuccess :: "string \<Rightarrow> string + Payload" where
  "validateSuccess token =
     Inr \<lparr>payload_Operation = OperationUpload, Name = ''testpvc'', Namespace = ''default'',
          payload_Resource = \<lparr>Group = [], Version = ''v1'',
                               Resource = ''persistentvolumeclaims''\<rparr>\<rparr>"

definition validateFailure :: "string \<Rightarrow> string + Payload" where
  "validateFailure token = Inl ''Bad token''"

definition newProxyRequest :: "string \<Rightarrow> HTTPRequest" where
  "newProxyRequest authHeaderValue =
     \<lparr>req_Method = POST, req_Path = UploadPathSync,
      req_Authorization = (if authHeaderValue \<noteq> [] then Some authHeaderValue else None),
      req_Body = ''data''\<rparr>"

definition newProxyHeadRequest :: "string \<Rightarrow> HTTPRequest" where
  "newProxyHeadRequest authHeaderValue =
     \<lparr>req_Method = HEAD, req_Path = UploadPathSync,
      req_Authorization = (if authHeaderValue \<noteq> [] then Some authHeaderValue else None),
      req_Body = []\<rparr>"

definition createApp :: uploadProxyApp where
  "createApp = \<lparr>client' = None, tokenValidator = None, urlResolver = None,
                 clientCreator = None\<rparr>"

definition fakeClientCreator :: "HTTPClient \<Rightarrow> string + HTTPClient" where
  "fakeClientCreator c = Inr c"

text \<open>The test server answers every request that reaches it with \<open>statusCode\<close> and an
  empty body; its client reaches it at addresses under \<open>serverURL\<close> only.\<close>

definition serverClient :: "string \<Rightarrow> int \<Rightarrow> HTTPClient" where
  "serverClient serverURL statusCode out =
     (if take (length serverURL) (out_URL out) = serverURL
      then Inr \<lparr>StatusCode = statusCode, resp_Body = []\<rparr>
      else Inl ''connection refused'')"

text \<open>The fake clientset holds one claim, \<^verbatim>\<open>default/testpvc\<close>, annotated with pod phase
  \<^verbatim>\<open>Running\<close> and pod ready \<^verbatim>\<open>true\<close>.\<close>

definition setupProxyTests :: "string \<Rightarrow> int \<Rightarrow> uploadProxyApp" where
  "setupProxyTests serverURL statusCode =
     createApp
       \<lparr>client' := Some [(''default'', ''testpvc'') \<mapsto> \<lparr>scheduled = True, ready = True\<rparr>],
        tokenValidator := Some validateSuccess,
        urlResolver := Some (\<lambda>namespace name resource. serverURL),
        clientCreator := Some (fakeClientCreator (serverClient serverURL statusCode))\<rparr>"

definition StatusOK :: int where
  "StatusOK = 200"

definition StatusInternalServerError :: int where
  "StatusInternalServerError = 500"

definition StatusBadRequest :: int where
  "StatusBadRequest = 400"

section \<open>Properties of the admission webhook\<close>

subsection \<open>Auxiliary facts\<close>

text \<open>The counting loop adds the number of non-nil fields to its counter.\<close>

lemma countSources_filter: "countSources fs n = n + length (filter (\<lambda>notNil. notNil) fs)"
  by (induction fs arbitrary: n) auto

lemma NotNil_iff: "NotNil p \<longleftrightarrow> p \<noteq> None"
  by (cases p) simp_all

text \<open>The loop visits exactly the alternatives of the struct: its count is the number of
  populated alternatives.\<close>

lemma numberOfSources_populated:
  "countSources (sourceFields s) 0 = populatedSources s"
proof -
  have "length (filter (\<lambda>notNil. notNil) (map NotNil ps)) =
        length (filter (\<lambda>alternative. alternative \<noteq> None) ps)" for ps :: "unit option list"
    by (induction ps) (simp_all add: NotNil_iff)
  then show ?thesis
    by (simp add: countSources_filter populatedSources_def sourceFields_def NotNil_iff)
qed

text \<open>Once the earlier blocks fall through, the result is decided by the capacity check
  and the access-mode check.\<close>

lemma validate_at_capacity:
  "reachesCapacityCheck ext wh request field spec pvc \<Longrightarrow>
   validateDataVolumeSpec ext wh request field spec =
     (case checkPVCSize field pvc of Some causes \<Rightarrow> Return causes
      | None \<Rightarrow> checkAccessModes field pvc)"
  by (simp add: reachesCapacityCheck_def validateDataVolumeSpec_def)






text \<open>\<^verbatim>\<open>Admit\<close> allows a request on its last line only, after the update check fell
  through and the spec validation returned no cause.\<close>

lemma checkUpdate_not_allowed: "checkUpdate ext ar dv \<noteq> Some reviewResponseAllowed"
  by (simp add: checkUpdate_def split: sum.splits)

lemma checkDestinationPVC_not_allowed:
  "checkDestinationPVC ext wh ar dv \<noteq> Some (Return reviewResponseAllowed)"
  by (simp add: checkDestinationPVC_def split: option.splits prod.splits GetError.splits)

lemma Admit_allowed:
  assumes "Admit ext wh ar = Return reviewResponseAllowed"
  shows "\<exists>dv. Unmarshal ext (Object_Raw (Request ar)) = Inr dv
           \<and> checkUpdate ext ar dv = None
           \<and> validateDataVolumeSpec ext wh (Request ar) (NewPath ''spec'') (dv_Spec dv) = Return []"
  using assms checkUpdate_not_allowed [of ext ar] checkDestinationPVC_not_allowed [of ext wh ar]
  by (auto simp: Admit_def Let_def split: option.splits sum.splits if_splits result.splits)

lemma Admit_changed_spec_not_allowed:
  assumes "Operation (Request ar) = Update"
    and "Unmarshal ext (Object_Raw (Request ar)) = Inr dv"
    and "Unmarshal ext (OldObject_Raw (Request ar)) = Inr oldDV"
    and "dv_Spec dv \<noteq> dv_Spec oldDV"
  shows "Admit ext wh ar \<noteq> Return reviewResponseAllowed"
proof
  assume "Admit ext wh ar = Return reviewResponseAllowed"
  from Admit_allowed [OF this] assms(2) have "checkUpdate ext ar dv = None"
    by auto
  with assms show False
    by (simp add: checkUpdate_def)
qed

text \<open>The concrete requests: a blank source passes every block before the capacity
  check, and is valid with one access mode and a request that is neither zero nor
  negative.\<close>

lemmas example_defs =
  blankSpec_def blankSpecOfClass_def blankSource_def claimSpec_def storage_def oneGi_def zeroSize_def testDV_def
  testExternals_def testWebhook_def admissionReview_def NewPath_def Child_def
  ReadWriteOnce_def ReadOnlyMany_def ReadWriteMany_def

lemma blank_reaches:
  "reachesCapacityCheck testExternals testWebhook (Request (admissionReview op raw old))
     (NewPath ''spec'') (blankSpec modes requests) (claimSpec modes requests)"
  by (simp add: reachesCapacityCheck_def checkNumberOfSources_def sourceFields_def
        checkSourceURL_def checkContentType_def checkImageio_def checkSourcePVC_def example_defs)

lemma blankOfClass_valid:
  assumes "\<not> IsZero q" and "0 \<le> sint (Value q)"
  shows "validateDataVolumeSpec testExternals testWebhook request (NewPath ''spec'')
           (blankSpecOfClass storageClass [ReadWriteOnce] (storage q)) = Return []"
proof -
  have "reachesCapacityCheck testExternals testWebhook request (NewPath ''spec'')
          (blankSpecOfClass storageClass [ReadWriteOnce] (storage q))
          (claimSpec [ReadWriteOnce] (storage q))"
    by (simp add: reachesCapacityCheck_def checkNumberOfSources_def sourceFields_def
          checkSourceURL_def checkContentType_def checkImageio_def checkSourcePVC_def
          example_defs)
  from validate_at_capacity [OF this] assms show ?thesis
    by (simp add: checkPVCSize_def checkAccessModes_def claimSpec_def storage_def
          ReadWriteOnce_def)
qed


text \<open>\<^verbatim>\<open>Admit\<close> on a request whose object decodes to a valid blank-source DataVolume, once
  the update check falls through.\<close>

lemma Admit_blank_allowed:
  assumes "Unmarshal testExternals raw = Inr dv"
    and "dv_Name dv = ''testdv''"
    and "dv_Spec dv = blankSpecOfClass storageClass [ReadWriteOnce] (storage q)"
    and "\<not> IsZero q" and "0 \<le> sint (Value q)"
    and "checkUpdate testExternals (admissionReview op raw old) dv = None"
  shows "Admit testExternals testWebhook (admissionReview op raw old) =
           Return reviewResponseAllowed"
proof -
  let ?ar = "admissionReview op raw old"
  have u: "Unmarshal testExternals (Object_Raw (Request ?ar)) = Inr dv"
    using assms(1) by (simp add: admissionReview_def)
  have v: "validateDataVolumeResource testExternals ?ar = None"
    by (simp add: testExternals_def)
  have n: "validateDataVolumeName (dv_Name dv) = []"
    by (simp add: validateDataVolumeName_def assms(2))
  have d: "checkDestinationPVC testExternals testWebhook ?ar dv = None"
    by (simp add: checkDestinationPVC_def testWebhook_def)
  have s: "validateDataVolumeSpec testExternals testWebhook (Request ?ar) (NewPath ''spec'')
             (dv_Spec dv) = Return []"
    unfolding assms(3) using assms(4,5) by (rule blankOfClass_valid)
  show ?thesis
    by (simp add: Admit_def u v assms(6) n d s)
qed

lemma Unmarshal_test:
  "Unmarshal testExternals ''dv-1Gi'' = Inr (testDV [ReadWriteOnce] oneGi)"
  "Unmarshal testExternals ''dv-0'' = Inr (testDV [ReadWriteOnce] zeroSize)"
  "Unmarshal testExternals ''dv-nomodes'' = Inr (testDV [] oneGi)"
  "Unmarshal testExternals ''dv-1Gi-fast'' = Inr fastDV"
  "Unmarshal testExternals ''dv-wrapped'' = Inr (testDV [ReadWriteOnce] wrappedSize)"
  by (simp_all add: testExternals_def ReadWriteOnce_def)

lemma testDV_fields:
  "dv_Name (testDV modes q) = ''testdv''"
  "dv_Spec (testDV [ReadWriteOnce] q) = blankSpecOfClass ''standard'' [ReadWriteOnce] (storage q)"
  by (simp_all add: testDV_def blankSpec_def)



lemma Admit_update_same:
  "Admit testExternals testWebhook (admissionReview Update ''dv-1Gi'' ''dv-1Gi'') =
     Return reviewResponseAllowed"
  by (rule Admit_blank_allowed [OF Unmarshal_test(1) testDV_fields])
     (simp_all add: oneGi_def checkUpdate_def admissionReview_def Unmarshal_test)

lemma resized_spec_differs:
  "dv_Spec (testDV modes oneGi) \<noteq> dv_Spec (testDV modes zeroSize)"
proof
  assume "dv_Spec (testDV modes oneGi) = dv_Spec (testDV modes zeroSize)"
  then have "storage oneGi = storage zeroSize"
    by (simp add: testDV_def blankSpec_def blankSpecOfClass_def claimSpec_def)
  then have "storage oneGi ''storage'' = storage zeroSize ''storage''"
    by simp
  then show False
    by (simp add: storage_def oneGi_def zeroSize_def)
qed

lemma reclassed_spec_differs:
  "dv_Spec fastDV \<noteq> dv_Spec (testDV [ReadWriteOnce] oneGi)"
  by (simp add: fastDV_def testDV_def blankSpec_def blankSpecOfClass_def)

lemma Admit_create_nomodes:
  "Admit testExternals testWebhook (admissionReview Create ''dv-nomodes'' []) = Panic IndexOutOfRange"
proof -
  let ?ar = "admissionReview Create ''dv-nomodes'' []"
  have u: "Unmarshal testExternals (Object_Raw (Request ?ar)) = Inr (testDV [] oneGi)"
    by (simp add: testExternals_def admissionReview_def)
  have v: "validateDataVolumeResource testExternals ?ar = None"
    by (simp add: testExternals_def)
  have c: "checkUpdate testExternals ?ar (testDV [] oneGi) = None"
    by (simp add: checkUpdate_def admissionReview_def)
  have n: "validateDataVolumeName (dv_Name (testDV [] oneGi)) = []"
    by (simp add: validateDataVolumeName_def testDV_def)
  have d: "checkDestinationPVC testExternals testWebhook ?ar (testDV [] oneGi) = None"
    by (simp add: checkDestinationPVC_def testWebhook_def admissionReview_def)
  have s: "dv_Spec (testDV [] oneGi) = blankSpec [] (storage oneGi)"
    by (simp add: testDV_def)
  have p: "validateDataVolumeSpec testExternals testWebhook (Request ?ar)
     (NewPath ''spec'') (blankSpec [] (storage oneGi)) = Panic IndexOutOfRange"
    unfolding validate_at_capacity [OF blank_reaches]
    by (simp add: checkPVCSize_def checkAccessModes_def claimSpec_def storage_def oneGi_def)
  show ?thesis
    by (simp add: Admit_def u v c n d s p)
qed

subsection \<open>Exactly one source\<close>

text \<open>
  Claim C6. The spec validation rejects a spec in which no source alternative is
  populated (``Missing Data volume source'') and one in which more than one is populated
  (``Multiple Data volume sources''); the source-count check lets a spec through if and
  only if exactly one of the optional source alternatives is not nil. The number of
  populated alternatives is \<open>populatedSources\<close>, read off the struct's fields.
\<close>

theorem validateDataVolumeSpec_source_count:
  "(populatedSources (Source spec) = 0 \<longrightarrow>
      validateDataVolumeSpec ext wh request field spec =
        Return [\<lparr>Type = CauseTypeFieldValueInvalid,
                 Message = ''Missing Data volume source'',
                 Field' = PathString (Child field [''source''])\<rparr>])
   \<and> (1 < populatedSources (Source spec) \<longrightarrow>
      validateDataVolumeSpec ext wh request field spec =
        Return [\<lparr>Type = CauseTypeFieldValueInvalid,
                 Message = ''Multiple Data volume sources'',
                 Field' = PathString (Child field [''source''])\<rparr>])
   \<and> (checkNumberOfSources field spec = None \<longleftrightarrow> populatedSources (Source spec) = 1)"
proof -
  have c: "countSources (sourceFields (Source spec)) 0 = populatedSources (Source spec)"
    by (rule numberOfSources_populated)
  show ?thesis
    by (auto simp: validateDataVolumeSpec_def checkNumberOfSources_def c Let_def)
qed

text \<open>A spec without a source, one with an HTTP and a blank source, and one with an S3
  and a blank source are rejected; a spec with only a blank source, only an S3 source,
  or only one of the further alternatives passes the count.\<close>

theorem validateDataVolumeSpec_source_count_witness:
  "validateDataVolumeSpec testExternals testWebhook (Request (admissionReview Create [] []))
       (NewPath ''spec'') (blankSpec [ReadWriteOnce] (storage oneGi)\<lparr>Source := noSource\<rparr>) =
     Return [\<lparr>Type = CauseTypeFieldValueInvalid, Message = ''Missing Data volume source'',
              Field' = ''spec.source''\<rparr>]
   \<and> validateDataVolumeSpec testExternals testWebhook (Request (admissionReview Create [] []))
       (NewPath ''spec'') (blankSpec [ReadWriteOnce] (storage oneGi)\<lparr>Source := twoSources\<rparr>) =
     Return [\<lparr>Type = CauseTypeFieldValueInvalid, Message = ''Multiple Data volume sources'',
              Field' = ''spec.source''\<rparr>]
   \<and> validateDataVolumeSpec testExternals testWebhook (Request (admissionReview Create [] []))
       (NewPath ''spec'') (blankSpec [ReadWriteOnce] (storage oneGi)\<lparr>Source := blankAndS3\<rparr>) =
     Return [\<lparr>Type = CauseTypeFieldValueInvalid, Message = ''Multiple Data volume sources'',
              Field' = ''spec.source''\<rparr>]
   \<and> checkNumberOfSources (NewPath ''spec'') (blankSpec [ReadWriteOnce] (storage oneGi)) = None
   \<and> checkNumberOfSources (NewPath ''spec'')
        (blankSpec [ReadWriteOnce] (storage oneGi)\<lparr>Source := s3Source\<rparr>) = None
   \<and> checkNumberOfSources (NewPath ''spec'')
        (blankSpec [ReadWriteOnce] (storage oneGi)\<lparr>Source := otherSource\<rparr>) = None"
proof -
  let ?spec = "blankSpec [ReadWriteOnce] (storage oneGi)"
  let ?rq = "Request (admissionReview Create [] [])"
  have n: "populatedSources noSource = 0" "populatedSources twoSources = 2"
    "populatedSources blankAndS3 = 2" "populatedSources blankSource = 1"
    "populatedSources s3Source = 1" "populatedSources otherSource = 1"
    by (simp_all add: populatedSources_def noSource_def twoSources_def blankAndS3_def
          blankSource_def s3Source_def otherSource_def)
  have b: "Source ?spec = blankSource"
    by (simp add: blankSpec_def blankSpecOfClass_def)
  have 1: "validateDataVolumeSpec testExternals testWebhook ?rq (NewPath ''spec'')
             (?spec\<lparr>Source := noSource\<rparr>) =
           Return [\<lparr>Type = CauseTypeFieldValueInvalid, Message = ''Missing Data volume source'',
                    Field' = ''spec.source''\<rparr>]"
    using validateDataVolumeSpec_source_count [of "?spec\<lparr>Source := noSource\<rparr>"
        testExternals testWebhook ?rq "NewPath ''spec''"] n
    by (simp add: NewPath_def Child_def)
  have 2: "validateDataVolumeSpec testExternals testWebhook ?rq (NewPath ''spec'')
             (?spec\<lparr>Source := twoSources\<rparr>) =
           Return [\<lparr>Type = CauseTypeFieldValueInvalid, Message = ''Multiple Data volume sources'',
                    Field' = ''spec.source''\<rparr>]"
    using validateDataVolumeSpec_source_count [of "?spec\<lparr>Source := twoSources\<rparr>"
        testExternals testWebhook ?rq "NewPath ''spec''"] n
    by (simp add: NewPath_def Child_def)
  have 3: "validateDataVolumeSpec testExternals testWebhook ?rq (NewPath ''spec'')
             (?spec\<lparr>Source := blankAndS3\<rparr>) =
           Return [\<lparr>Type = CauseTypeFieldValueInvalid, Message = ''Multiple Data volume sources'',
                    Field' = ''spec.source''\<rparr>]"
    using validateDataVolumeSpec_source_count [of "?spec\<lparr>Source := blankAndS3\<rparr>"
        testExternals testWebhook ?rq "NewPath ''spec''"] n
    by (simp add: NewPath_def Child_def)
  have 4: "checkNumberOfSources (NewPath ''spec'') ?spec = None"
    using validateDataVolumeSpec_source_count [of ?spec testExternals testWebhook ?rq
        "NewPath ''spec''"] n b
    by simp
  have 5: "checkNumberOfSources (NewPath ''spec'') (?spec\<lparr>Source := s3Source\<rparr>) = None"
    using validateDataVolumeSpec_source_count [of "?spec\<lparr>Source := s3Source\<rparr>"
        testExternals testWebhook ?rq "NewPath ''spec''"] n
    by simp
  have 6: "checkNumberOfSources (NewPath ''spec'') (?spec\<lparr>Source := otherSource\<rparr>) = None"
    using validateDataVolumeSpec_source_count [of "?spec\<lparr>Source := otherSource\<rparr>"
        testExternals testWebhook ?rq "NewPath ''spec''"] n
    by simp
  show ?thesis
    using 1 2 3 4 5 6 by simp
qed

subsection \<open>Capacity\<close>




subsection \<open>The spec cannot be updated\<close>

text \<open>
  Claim C8. On an update whose two objects decode and whose new spec differs from the old
  one, \<^verbatim>\<open>Admit\<close> returns the rejected response ``Cannot update DataVolume Spec'' (when
  the resource validation before it passes) and in no case allows the request; so
  whenever an update is allowed, the new spec equals the old spec. A spec here is the
  whole decoded value: the fields the validator reads and, in the record's extension,
  all the rest.
\<close>

theorem Admit_update_spec_immutable:
  "(Operation (Request ar) = Update \<and> validateDataVolumeResource ext ar = None
      \<and> Unmarshal ext (Object_Raw (Request ar)) = Inr dv
      \<and> Unmarshal ext (OldObject_Raw (Request ar)) = Inr oldDV
      \<and> dv_Spec dv \<noteq> dv_Spec oldDV \<longrightarrow>
    Admit ext wh ar =
      Return (toRejectedAdmissionResponse
        [\<lparr>Type = CauseTypeFieldValueDuplicate, Message = ''Cannot update DataVolume Spec'',
          Field' = ''DataVolume.Spec''\<rparr>]))
   \<and> (Operation (Request ar) = Update
      \<and> Unmarshal ext (Object_Raw (Request ar)) = Inr dv
      \<and> Unmarshal ext (OldObject_Raw (Request ar)) = Inr oldDV
      \<and> dv_Spec dv \<noteq> dv_Spec oldDV \<longrightarrow>
    Admit ext wh ar \<noteq> Return reviewResponseAllowed)
   \<and> (Operation (Request ar) = Update \<and> Admit ext wh ar = Return reviewResponseAllowed \<longrightarrow>
        (\<exists>new old. Unmarshal ext (Object_Raw (Request ar)) = Inr new
            \<and> Unmarshal ext (OldObject_Raw (Request ar)) = Inr old
            \<and> dv_Spec new = dv_Spec old))"
proof (intro conjI impI)
  assume a: "Operation (Request ar) = Update \<and> validateDataVolumeResource ext ar = None
      \<and> Unmarshal ext (Object_Raw (Request ar)) = Inr dv
      \<and> Unmarshal ext (OldObject_Raw (Request ar)) = Inr oldDV
      \<and> dv_Spec dv \<noteq> dv_Spec oldDV"
  then have "checkUpdate ext ar dv =
      Some (toRejectedAdmissionResponse
        [\<lparr>Type = CauseTypeFieldValueDuplicate, Message = ''Cannot update DataVolume Spec'',
          Field' = ''DataVolume.Spec''\<rparr>])"
    by (simp add: checkUpdate_def NewPath_def Child_def)
  with a show "Admit ext wh ar =
      Return (toRejectedAdmissionResponse
        [\<lparr>Type = CauseTypeFieldValueDuplicate, Message = ''Cannot update DataVolume Spec'',
          Field' = ''DataVolume.Spec''\<rparr>])"
    by (simp add: Admit_def)
next
  assume "Operation (Request ar) = Update
      \<and> Unmarshal ext (Object_Raw (Request ar)) = Inr dv
      \<and> Unmarshal ext (OldObject_Raw (Request ar)) = Inr oldDV
      \<and> dv_Spec dv \<noteq> dv_Spec oldDV"
  then show "Admit ext wh ar \<noteq> Return reviewResponseAllowed"
    using Admit_changed_spec_not_allowed [of ar ext dv oldDV wh] by blast
next
  assume a: "Operation (Request ar) = Update \<and> Admit ext wh ar = Return reviewResponseAllowed"
  then obtain new where n: "Unmarshal ext (Object_Raw (Request ar)) = Inr new"
    and c: "checkUpdate ext ar new = None"
    using Admit_allowed [of ext wh ar] by blast
  from a c obtain old where "Unmarshal ext (OldObject_Raw (Request ar)) = Inr old"
    and "dv_Spec new = dv_Spec old"
    by (cases "Unmarshal ext (OldObject_Raw (Request ar))")
       (auto simp: checkUpdate_def split: if_splits)
  with n show "\<exists>new old. Unmarshal ext (Object_Raw (Request ar)) = Inr new
            \<and> Unmarshal ext (OldObject_Raw (Request ar)) = Inr old
            \<and> dv_Spec new = dv_Spec old"
    by blast
qed

text \<open>An update that changes the storage request from one gibibyte to zero, an update
  that changes nothing the validator reads (only the storage class, in the extension),
  and an update that leaves the spec as it is.\<close>

theorem Admit_update_spec_immutable_witness:
  "Admit testExternals testWebhook (admissionReview Update ''dv-0'' ''dv-1Gi'') =
      Return (toRejectedAdmissionResponse
        [\<lparr>Type = CauseTypeFieldValueDuplicate, Message = ''Cannot update DataVolume Spec'',
          Field' = ''DataVolume.Spec''\<rparr>])
   \<and> Admit testExternals testWebhook (admissionReview Update ''dv-1Gi-fast'' ''dv-1Gi'') =
      Return (toRejectedAdmissionResponse
        [\<lparr>Type = CauseTypeFieldValueDuplicate, Message = ''Cannot update DataVolume Spec'',
          Field' = ''DataVolume.Spec''\<rparr>])
   \<and> Admit testExternals testWebhook (admissionReview Update ''dv-1Gi'' ''dv-1Gi'') =
      Return reviewResponseAllowed
   \<and> (\<exists>new old.
        Unmarshal testExternals (Object_Raw (Request (admissionReview Update ''dv-1Gi'' ''dv-1Gi'')))
          = Inr new
        \<and> Unmarshal testExternals
            (OldObject_Raw (Request (admissionReview Update ''dv-1Gi'' ''dv-1Gi''))) = Inr old
        \<and> dv_Spec new = dv_Spec old)"
proof -
  let ?ar = "admissionReview Update ''dv-0'' ''dv-1Gi''"
  have h: "Operation (Request ?ar) = Update" "validateDataVolumeResource testExternals ?ar = None"
    "Unmarshal testExternals (Object_Raw (Request ?ar)) = Inr (testDV [ReadWriteOnce] zeroSize)"
    "Unmarshal testExternals (OldObject_Raw (Request ?ar)) = Inr (testDV [ReadWriteOnce] oneGi)"
    by (simp_all add: admissionReview_def Unmarshal_test) (simp add: testExternals_def)
  have ne: "dv_Spec (testDV [ReadWriteOnce] zeroSize) \<noteq> dv_Spec (testDV [ReadWriteOnce] oneGi)"
    using resized_spec_differs [of "[ReadWriteOnce]"] by simp
  have 1: "Admit testExternals testWebhook ?ar =
      Return (toRejectedAdmissionResponse
        [\<lparr>Type = CauseTypeFieldValueDuplicate, Message = ''Cannot update DataVolume Spec'',
          Field' = ''DataVolume.Spec''\<rparr>])"
    using Admit_update_spec_immutable [of ?ar testExternals "testDV [ReadWriteOnce] zeroSize"
        "testDV [ReadWriteOnce] oneGi" testWebhook] h ne
    by blast
  let ?fast = "admissionReview Update ''dv-1Gi-fast'' ''dv-1Gi''"
  have f: "Operation (Request ?fast) = Update"
    "validateDataVolumeResource testExternals ?fast = None"
    "Unmarshal testExternals (Object_Raw (Request ?fast)) = Inr fastDV"
    "Unmarshal testExternals (OldObject_Raw (Request ?fast)) = Inr (testDV [ReadWriteOnce] oneGi)"
    by (simp_all add: admissionReview_def Unmarshal_test) (simp add: testExternals_def)
  have 2: "Admit testExternals testWebhook ?fast =
      Return (toRejectedAdmissionResponse
        [\<lparr>Type = CauseTypeFieldValueDuplicate, Message = ''Cannot update DataVolume Spec'',
          Field' = ''DataVolume.Spec''\<rparr>])"
    using Admit_update_spec_immutable [of ?fast testExternals fastDV
        "testDV [ReadWriteOnce] oneGi" testWebhook] f reclassed_spec_differs
    by blast
  let ?same = "admissionReview Update ''dv-1Gi'' ''dv-1Gi''"
  have o: "Operation (Request ?same) = Update"
    by (simp add: admissionReview_def)
  have 3: "Admit testExternals testWebhook ?same = Return reviewResponseAllowed"
    by (rule Admit_update_same)
  have 4: "\<exists>new old. Unmarshal testExternals (Object_Raw (Request ?same)) = Inr new
        \<and> Unmarshal testExternals (OldObject_Raw (Request ?same)) = Inr old
        \<and> dv_Spec new = dv_Spec old"
    using Admit_update_spec_immutable [of ?same testExternals _ _ testWebhook] o 3
    by blast
  show ?thesis using 1 2 3 4 by blast
qed

subsection \<open>An empty list of access modes\<close>

text \<open>
  Claim C10. The claim is that the validation still returns a result when a spec passes
  every earlier check and its PVC has no access mode. The code guards \<^verbatim>\<open>accessModes[0]\<close>
  by \<^verbatim>\<open>len(accessModes) > 1\<close> only, so with an empty list the index is out of range:
  for every such spec the validation panics and returns nothing.
\<close>

theorem validateDataVolumeSpec_empty_accessModes:
  "reachesCapacityCheck ext wh request field spec pvc \<Longrightarrow>
   Requests pvc ''storage'' = Some q \<Longrightarrow> \<not> IsZero q \<Longrightarrow> 0 \<le> sint (Value q) \<Longrightarrow>
   AccessModes pvc = [] \<Longrightarrow>
   validateDataVolumeSpec ext wh request field spec = Panic IndexOutOfRange"
  by (simp add: validate_at_capacity checkPVCSize_def checkAccessModes_def)

text \<open>A blank source, a request of one gibibyte, no access mode.\<close>

theorem validateDataVolumeSpec_empty_accessModes_witness:
  "validateDataVolumeSpec testExternals testWebhook (Request (admissionReview Create ''dv-nomodes'' []))
     (NewPath ''spec'') (blankSpec [] (storage oneGi)) = Panic IndexOutOfRange"
proof -
  have q: "Requests (claimSpec [] (storage oneGi)) ''storage'' = Some oneGi"
    "\<not> IsZero oneGi" "0 \<le> sint (Value oneGi)" "AccessModes (claimSpec [] (storage oneGi)) = []"
    by (simp_all add: claimSpec_def storage_def oneGi_def)
  show ?thesis
    by (rule validateDataVolumeSpec_empty_accessModes [OF blank_reaches q])
qed

section \<open>Properties of the upload proxy\<close>

lemmas proxy_test_defs =
  setupProxyTests_def createApp_def newProxyRequest_def newProxyHeadRequest_def
  validateSuccess_def fakeClientCreator_def serverClient_def bearerPrefix_def
  StatusOK_def StatusInternalServerError_def

lemma Resolve_ready:
  assumes "client' app = Some state" and "state (namespace, name) = Some target"
    and "scheduled target" and "ready target" and "urlResolver app = Some resolve"
  shows "Resolve app namespace name resourceKind =
           Return (Inr (resolve namespace name resourceKind))"
  using assms by (simp add: Resolve_def)

subsection \<open>The backend's status code is relayed\<close>

text \<open>
  Claim C1. For a request on the upload path whose Authorization header carries a token
  the validator accepts, and whose target exists and is scheduled and ready, the proxy
  calls the validator, resolves the backend and forwards the request (same method, same
  body) to the resolved address, and the status code returned to the caller is the
  status code of the backend's response. The request's method is arbitrary, so this
  holds for the full-body POST and for the HEAD probe alike.
\<close>

theorem ServeHTTP_relays_backend_status:
  assumes "req_Path r = UploadPathSync"
    and "req_Authorization r = Some (bearerPrefix @ token)"
    and "tokenValidator app = Some validate" and "validate token = Inr claim"
    and "client' app = Some state" and "state (Namespace claim, Name claim) = Some target"
    and "scheduled target" and "ready target"
    and "urlResolver app = Some resolve"
    and "clientCreator app = Some (Inr httpClient)"
    and "httpClient
           \<lparr>out_URL = resolve (Namespace claim) (Name claim) (Resource (payload_Resource claim)),
            out_Method = req_Method r, out_Body = req_Body r\<rparr> = Inr response"
  shows "ServeHTTP app r =
           (Return (Completed response),
            [ValidateToken token,
             ResolveBackend (Namespace claim) (Name claim) (Resource (payload_Resource claim)),
             Forward
               \<lparr>out_URL = resolve (Namespace claim) (Name claim)
                            (Resource (payload_Resource claim)),
                out_Method = req_Method r, out_Body = req_Body r\<rparr>])
         \<and> Code (Completed response) = StatusCode response"
proof -
  have res: "Resolve app (Namespace claim) (Name claim) (Resource (payload_Resource claim)) =
      Return (Inr (resolve (Namespace claim) (Name claim) (Resource (payload_Resource claim))))"
    using assms(5-9) by (rule Resolve_ready)
  show ?thesis
    using assms(1-4,10,11) by (simp add: ServeHTTP_def handleUploadRequest_def res Let_def)
qed

text \<open>The four table entries of the test file: the test server answers 200 or 500, the
  request is \<^verbatim>\<open>newProxyRequest("Bearer valid")\<close> or \<^verbatim>\<open>newProxyHeadRequest("Bearer valid")\<close>.\<close>

theorem ServeHTTP_relays_backend_status_witness:
  "fst (ServeHTTP (setupProxyTests ''http://127.0.0.1:8443'' StatusOK)
          (newProxyRequest ''Bearer valid'')) =
     Return (Completed \<lparr>StatusCode = 200, resp_Body = []\<rparr>)
   \<and> fst (ServeHTTP (setupProxyTests ''http://127.0.0.1:8443'' StatusInternalServerError)
          (newProxyRequest ''Bearer valid'')) =
     Return (Completed \<lparr>StatusCode = 500, resp_Body = []\<rparr>)
   \<and> fst (ServeHTTP (setupProxyTests ''http://127.0.0.1:8443'' StatusOK)
          (newProxyHeadRequest ''Bearer valid'')) =
     Return (Completed \<lparr>StatusCode = 200, resp_Body = []\<rparr>)
   \<and> fst (ServeHTTP (setupProxyTests ''http://127.0.0.1:8443'' StatusInternalServerError)
          (newProxyHeadRequest ''Bearer valid'')) =
     Return (Completed \<lparr>StatusCode = 500, resp_Body = []\<rparr>)
   \<and> Code (Completed \<lparr>StatusCode = 200, resp_Body = []\<rparr>) = 200
   \<and> Code (Completed \<lparr>StatusCode = 500, resp_Body = []\<rparr>) = 500"
proof -
  let ?url = "''http://127.0.0.1:8443''"
  let ?claim = "\<lparr>payload_Operation = OperationUpload, Name = ''testpvc'',
                  Namespace = ''default'',
                  payload_Resource = \<lparr>Group = [], Version = ''v1'',
                                       Resource = ''persistentvolumeclaims''\<rparr>\<rparr>"
  let ?state = "[(''default'', ''testpvc'') \<mapsto> \<lparr>scheduled = True, ready = True\<rparr>]"
  have run: "fst (ServeHTTP (setupProxyTests ?url statusCode) r) =
        Return (Completed \<lparr>StatusCode = statusCode, resp_Body = []\<rparr>)
      \<and> Code (Completed \<lparr>StatusCode = statusCode, resp_Body = []\<rparr>) = statusCode"
    if "r = newProxyRequest ''Bearer valid'' \<or> r = newProxyHeadRequest ''Bearer valid''"
    for statusCode r
    using that
      ServeHTTP_relays_backend_status [where r = r and token = "''valid''"
        and app = "setupProxyTests ?url statusCode" and validate = validateSuccess
        and claim = ?claim and state = ?state
        and target = "\<lparr>scheduled = True, ready = True\<rparr>"
        and resolve = "\<lambda>namespace name resource. ?url"
        and httpClient = "serverClient ?url statusCode"
        and response = "\<lparr>StatusCode = statusCode, resp_Body = []\<rparr>"]
    by (auto simp: proxy_test_defs)
  show ?thesis
    using run [of "newProxyRequest ''Bearer valid''" StatusOK]
      run [of "newProxyRequest ''Bearer valid''" StatusInternalServerError]
      run [of "newProxyHeadRequest ''Bearer valid''" StatusOK]
      run [of "newProxyHeadRequest ''Bearer valid''" StatusInternalServerError]
    by (simp add: StatusOK_def StatusInternalServerError_def)
qed

subsection \<open>A missing or malformed Authorization header\<close>

text \<open>
  Claim C2. A request on the upload path whose Authorization header is absent, or does
  not start with the scheme prefix, is answered with status 400, and neither the token
  validator nor the backend resolver (nor the backend) is called: the list of calls is
  empty, whatever the app's collaborators are, even when it has none.
\<close>

theorem ServeHTTP_bad_authorization_header:
  assumes "req_Path r = UploadPathSync"
    and "req_Authorization r = None
         \<or> (\<exists>header. req_Authorization r = Some header
               \<and> take (length bearerPrefix) header \<noteq> bearerPrefix)"
  shows "ServeHTTP app r = (Return (Rejected BadAuthorizationHeader), [])
         \<and> Code (Rejected BadAuthorizationHeader) = StatusBadRequest"
  using assms
  by (auto simp: ServeHTTP_def handleUploadRequest_def StatusBadRequest_def)

text \<open>The two table entries of the test file, on a fresh app: no header, and the header
  \<^verbatim>\<open>Beereer valid\<close>.\<close>

theorem ServeHTTP_bad_authorization_header_witness:
  "ServeHTTP createApp (newProxyRequest []) = (Return (Rejected BadAuthorizationHeader), [])
   \<and> ServeHTTP createApp (newProxyRequest ''Beereer valid'') =
       (Return (Rejected BadAuthorizationHeader), [])
   \<and> Code (Rejected BadAuthorizationHeader) = 400"
proof -
  have a: "req_Path (newProxyRequest []) = UploadPathSync"
    "req_Authorization (newProxyRequest []) = None"
    by (simp_all add: newProxyRequest_def)
  have b: "req_Path (newProxyRequest ''Beereer valid'') = UploadPathSync"
    "req_Authorization (newProxyRequest ''Beereer valid'') = Some ''Beereer valid''"
    "take (length bearerPrefix) ''Beereer valid'' \<noteq> bearerPrefix"
    by (simp_all add: newProxyRequest_def bearerPrefix_def)
  show ?thesis
    using ServeHTTP_bad_authorization_header [of "newProxyRequest []" createApp]
      ServeHTTP_bad_authorization_header [of "newProxyRequest ''Beereer valid''" createApp]
      a b
    by (simp add: StatusBadRequest_def)
qed

end
